theory Spec2Isabelle
  imports Complex_Main
begin

section \<open>Data model\<close>

text \<open>
  The module \<^verbatim>\<open>fast_parallel_fmats_methods.pyx\<close> holds the worker-side operations of the
  parallel F-matrix solver. Every operation receives the worker's copy of the
  \<^verbatim>\<open>FMatrix\<close> object (\<^verbatim>\<open>factory\<close>) and appends to the module-level list
  \<^verbatim>\<open>worker_results\<close>. Python exceptions are values of the type \<open>error\<close>; \<open>Fault\<close>
  stands for a failure below the level of Python exceptions (reading an address that
  holds no object).
\<close>

datatype error =
  KeyError | ZeroDivisionError | AttributeError | TypeError | ValueError | OverflowError | Fault

text \<open>
  \<^verbatim>\<open>factory.FR\<close>, the fusion ring: its basis, its identity element, the fusion
  multiplicities \<^verbatim>\<open>Nk_ij\<close> and the R-matrix scalars. Basis elements have type \<open>'b\<close>;
  scalars, F-symbols and polynomials live in one commutative ring \<open>'p\<close>, into which
  Python's \<^verbatim>\<open>0\<close> and \<^verbatim>\<open>1\<close> are coerced as Sage does when they meet a ring element.
\<close>

record ('b, 'p) fusion_ring =
  FR_basis :: "'b list"
  FR_one :: 'b
  Nk_ij :: "'b \<Rightarrow> 'b \<Rightarrow> 'b \<Rightarrow> int"
  r_matrix :: "'b \<Rightarrow> 'b \<Rightarrow> 'b \<Rightarrow> 'p"

type_synonym 'b sextuple = "'b \<times> 'b \<times> 'b \<times> 'b \<times> 'b \<times> 'b"

text \<open>
  The attributes of the \<^verbatim>\<open>FMatrix\<close> object that this module reads or writes:
  \<^verbatim>\<open>_fvars\<close> (a dict from sextuples to ring elements), \<^verbatim>\<open>solved\<close>, \<^verbatim>\<open>_ks\<close>,
  \<^verbatim>\<open>_var_degs\<close>, \<^verbatim>\<open>_nnz\<close> and \<^verbatim>\<open>_kp\<close>. The module does not look into the last five;
  their types are parameters.
\<close>

record ('b, 'p, 'so, 'ks, 'vd, 'nz, 'kp) factory =
  FR :: "('b, 'p) fusion_ring"
  fvars :: "'b sextuple \<rightharpoonup> 'p"
  solved :: 'so
  ks :: 'ks
  var_degs :: 'vd
  nnz :: 'nz
  kp :: 'kp

section \<open>Mappers\<close>

text \<open>
  \<^verbatim>\<open>_fmat(factory, a, b, c, d, x, y)\<close>. The subscript \<^verbatim>\<open>factory._fvars[a,b,c,d,x,y]\<close>
  raises \<^verbatim>\<open>KeyError\<close> for a sextuple that is not a key of the dict.
\<close>

definition fmat ::
  "('b, 'p::comm_ring_1, 'so, 'ks, 'vd, 'nz, 'kp) factory
    \<Rightarrow> 'b \<Rightarrow> 'b \<Rightarrow> 'b \<Rightarrow> 'b \<Rightarrow> 'b \<Rightarrow> 'b \<Rightarrow> error + 'p" where
  "fmat factory a b c d x y =
    (if Nk_ij (FR factory) a b x = 0 \<or> Nk_ij (FR factory) x c d = 0
        \<or> Nk_ij (FR factory) b c y = 0 \<or> Nk_ij (FR factory) a y d = 0
     then Inr 0
     else if a = FR_one (FR factory) then (if x = b \<and> y = d then Inr 1 else Inr 0)
     else if b = FR_one (FR factory) then (if x = a \<and> y = c then Inr 1 else Inr 0)
     else if c = FR_one (FR factory) then (if x = d \<and> y = b then Inr 1 else Inr 0)
     else (case fvars factory (a, b, c, d, x, y) of
             None \<Rightarrow> Inl KeyError
           | Some v \<Rightarrow> Inr v))"

text \<open>
  \<^verbatim>\<open>req_cy(factory, sextuple)\<close>, the hexagon equation of a sextuple. The tuples that
  \<^verbatim>\<open>itertools.product\<close> yields are lists here; unpacking a tuple of another length raises
  \<^verbatim>\<open>ValueError\<close>. \<open>req_rhs\<close> is the loop over the basis that accumulates \<^verbatim>\<open>rhs\<close>; the
  factors of a product are evaluated from left to right, so the first lookup that
  fails decides the exception. (The parameter \<^verbatim>\<open>side\<close> is never read.)
\<close>

fun req_rhs ::
  "('b, 'p::comm_ring_1, 'so, 'ks, 'vd, 'nz, 'kp) factory
    \<Rightarrow> 'b \<Rightarrow> 'b \<Rightarrow> 'b \<Rightarrow> 'b \<Rightarrow> 'b \<Rightarrow> 'b \<Rightarrow> 'b list \<Rightarrow> 'p \<Rightarrow> error + 'p" where
  "req_rhs factory a b c d e g [] rhs = Inr rhs"
| "req_rhs factory a b c d e g (f # fs) rhs =
    (case fmat factory c a b d e f of
       Inl err \<Rightarrow> Inl err
     | Inr u \<Rightarrow>
        (case fmat factory a b c d f g of
           Inl err \<Rightarrow> Inl err
         | Inr v \<Rightarrow> req_rhs factory a b c d e g fs (rhs + u * r_matrix (FR factory) f c d * v)))"

definition req_cy ::
  "('b, 'p::comm_ring_1, 'so, 'ks, 'vd, 'nz, 'kp) factory \<Rightarrow> 'b list \<Rightarrow> error + 'p" where
  "req_cy factory sextuple =
    (case sextuple of
       [a, b, c, d, e, g] \<Rightarrow>
        (case fmat factory a c b d e g of
           Inl err \<Rightarrow> Inl err
         | Inr u \<Rightarrow>
            (case req_rhs factory a b c d e g (FR_basis (FR factory)) 0 of
               Inl err \<Rightarrow> Inl err
             | Inr rhs \<Rightarrow>
                Inr (r_matrix (FR factory) a c e * u * r_matrix (FR factory) b c g - rhs)))
     | _ \<Rightarrow> Inl ValueError)"

text \<open>
  \<^verbatim>\<open>feq_cy(factory, nonuple, prune=False)\<close>, the pentagon equation of a nonuple. An
  optional argument is an \<open>option\<close>: \<open>None\<close> when the caller leaves it out.
\<close>

fun feq_rhs ::
  "('b, 'p::comm_ring_1, 'so, 'ks, 'vd, 'nz, 'kp) factory
    \<Rightarrow> 'b \<Rightarrow> 'b \<Rightarrow> 'b \<Rightarrow> 'b \<Rightarrow> 'b \<Rightarrow> 'b \<Rightarrow> 'b \<Rightarrow> 'b \<Rightarrow> 'b \<Rightarrow> 'b list \<Rightarrow> 'p \<Rightarrow> error + 'p" where
  "feq_rhs factory a b c d e f g k l [] rhs = Inr rhs"
| "feq_rhs factory a b c d e f g k l (h # hs) rhs =
    (case fmat factory a b c g f h of
       Inl err \<Rightarrow> Inl err
     | Inr u \<Rightarrow>
        (case fmat factory a h d e g k of
           Inl err \<Rightarrow> Inl err
         | Inr v \<Rightarrow>
            (case fmat factory b c d k h l of
               Inl err \<Rightarrow> Inl err
             | Inr w \<Rightarrow> feq_rhs factory a b c d e f g k l hs (rhs + u * v * w))))"

definition feq_cy ::
  "('b, 'p::comm_ring_1, 'so, 'ks, 'vd, 'nz, 'kp) factory
    \<Rightarrow> 'b list \<Rightarrow> bool option \<Rightarrow> error + 'p" where
  "feq_cy factory nonuple prune_arg =
    (let prune = (case prune_arg of None \<Rightarrow> False | Some p \<Rightarrow> p) in
     case nonuple of
       [a, b, c, d, e, f, g, k, l] \<Rightarrow>
        (case fmat factory f c d e g l of
           Inl err \<Rightarrow> Inl err
         | Inr u \<Rightarrow>
            (case fmat factory a b l e f k of
               Inl err \<Rightarrow> Inl err
             | Inr v \<Rightarrow>
                (let lhs = u * v in
                 if lhs = 0 \<and> prune then Inr 0
                 else (case feq_rhs factory a b c d e f g k l (FR_basis (FR factory)) 0 of
                         Inl err \<Rightarrow> Inl err
                       | Inr rhs \<Rightarrow> Inr (lhs - rhs)))))
     | _ \<Rightarrow> Inl ValueError)"

section \<open>The external polynomial engine and the result buffer\<close>

text \<open>
  A polynomial in tuple form is a tuple of (exponent, coefficient) pairs, and the
  zero polynomial is the empty tuple \<^verbatim>\<open>tuple()\<close>. The same list of pairs stands for a
  dict from exponents to coefficients (its items in insertion order), so that
  \<^verbatim>\<open>tuple(eq_dict.items())\<close> is the list itself.
\<close>

type_synonym ('m, 'c) poly_tup = "('m \<times> 'c) list"

text \<open>
  The functions that the module takes from \<^verbatim>\<open>poly_tup_engine\<close> and the method
  \<^verbatim>\<open>dict()\<close> of a polynomial. Their code is not part of this module: they are
  parameters, taken as total functions without effects.
\<close>

record ('p, 'm, 'c, 'ks, 'vd, 'nz, 'kp, 'kv) engine =
  poly_dict :: "'p \<Rightarrow> ('m, 'c) poly_tup"
  reduce_poly_dict :: "('m, 'c) poly_tup \<Rightarrow> 'nz \<Rightarrow> 'ks \<Rightarrow> ('m, 'c) poly_tup"
  subs :: "('m, 'c) poly_tup \<Rightarrow> 'kp \<Rightarrow> ('m, 'c) poly_tup"
  tup_fixes_sq :: "('m, 'c) poly_tup \<Rightarrow> bool"
  to_monic :: "('m, 'c) poly_tup \<Rightarrow> ('m, 'c) poly_tup"
  compute_known_powers :: "'vd \<Rightarrow> 'kv \<Rightarrow> 'kp"

text \<open>
  The methods \<^verbatim>\<open>get_known_nonz()\<close> and \<^verbatim>\<open>get_known_vals()\<close> of the class \<^verbatim>\<open>FMatrix\<close>,
  which is defined outside this module: functions of the object's state.
\<close>

record ('b, 'p, 'so, 'ks, 'vd, 'nz, 'kp, 'kv) fmatrix_methods =
  get_known_nonz :: "('b, 'p, 'so, 'ks, 'vd, 'nz, 'kp) factory \<Rightarrow> 'nz"
  get_known_vals :: "('b, 'p, 'so, 'ks, 'vd, 'nz, 'kp) factory \<Rightarrow> 'kv"

text \<open>
  An entry of \<^verbatim>\<open>worker_results\<close>: an equation in tuple form, or a scalar recorded by
  the verification pass.
\<close>

datatype ('m, 'c, 's) result = Poly "('m, 'c) poly_tup" | Miss 's

section \<open>The worker loops\<close>

text \<open>
  \<^verbatim>\<open>itertools.product(xs, repeat=k)\<close>: the tuples of length \<open>k\<close> over \<open>xs\<close> in
  lexicographic order, the last component running fastest.
\<close>

fun product_repeat :: "'a list \<Rightarrow> nat \<Rightarrow> 'a list list" where
  "product_repeat xs 0 = [[]]"
| "product_repeat xs (Suc k) = concat (map (\<lambda>x. map ((#) x) (product_repeat xs k)) xs)"

text \<open>
  A \<^verbatim>\<open>for\<close> statement over a list: the body runs on each item in turn, and the first
  exception ends the loop with the state reached before the failing iteration.
\<close>

fun for_loop :: "('x \<Rightarrow> 's \<Rightarrow> error + 's) \<Rightarrow> 'x list \<Rightarrow> 's \<Rightarrow> error option \<times> 's" where
  "for_loop body [] s = (None, s)"
| "for_loop body (x # xs) s =
    (case body x s of
       Inl err \<Rightarrow> (Some err, s)
     | Inr s' \<Rightarrow> for_loop body xs s')"

text \<open>
  \<^verbatim>\<open>enumerate\<close> with a counter declared \<^verbatim>\<open>cdef unsigned long i\<close>: the counter is a C
  integer of 64 bits, which starts at zero and wraps around.
\<close>

definition enumerate_ulong :: "'a list \<Rightarrow> (nat \<times> 'a) list" where
  "enumerate_ulong xs = zip (map (\<lambda>i. i mod 2 ^ 64) [0..<length xs]) xs"

text \<open>
  \<^verbatim>\<open>get_reduced_hexagons(factory, mp_params)\<close>. \<open>hexagon_body\<close> is the block guarded by
  the test \<^verbatim>\<open>i % n_proc == child_id\<close>, \<open>hexagon_step\<close> one iteration of the loop over
  \<^verbatim>\<open>enumerate(product(factory.FR.basis(), repeat=6))\<close>. The worker id and the number of
  workers are natural numbers (the pool hands out \<open>0 \<le> child_id < n_proc\<close>); they are
  Python objects here, so that a zero \<^verbatim>\<open>n_proc\<close> raises \<^verbatim>\<open>ZeroDivisionError\<close>. The value
  \<^verbatim>\<open>he\<close> is read in the ring \<open>'p\<close>, where its method \<^verbatim>\<open>dict()\<close> is defined. The
  operation returns nothing; its result here is the exception raised, if any, and the
  buffer it leaves.
\<close>

definition hexagon_body ::
  "('p::comm_ring_1, 'm, 'c, 'ks, 'vd, 'nz, 'kp, 'kv) engine
    \<Rightarrow> ('b, 'p, 'so, 'ks, 'vd, 'nz, 'kp) factory
    \<Rightarrow> 'b list \<Rightarrow> ('m, 'c, 's) result list \<Rightarrow> error + ('m, 'c, 's) result list" where
  "hexagon_body eng factory sextuple worker_results =
    (case req_cy factory sextuple of
       Inl err \<Rightarrow> Inl err
     | Inr he \<Rightarrow>
        Inr (if he \<noteq> 0
             then worker_results @
               [Poly (reduce_poly_dict eng (poly_dict eng he) (nnz factory) (ks factory))]
             else worker_results))"

definition hexagon_step ::
  "('p::comm_ring_1, 'm, 'c, 'ks, 'vd, 'nz, 'kp, 'kv) engine
    \<Rightarrow> ('b, 'p, 'so, 'ks, 'vd, 'nz, 'kp) factory \<Rightarrow> nat \<Rightarrow> nat
    \<Rightarrow> nat \<times> 'b list \<Rightarrow> ('m, 'c, 's) result list \<Rightarrow> error + ('m, 'c, 's) result list" where
  "hexagon_step eng factory child_id n_proc item worker_results =
    (case item of (i, sextuple) \<Rightarrow>
      if n_proc = 0 then Inl ZeroDivisionError
      else if i mod n_proc = child_id then hexagon_body eng factory sextuple worker_results
      else Inr worker_results)"

definition get_reduced_hexagons ::
  "('p::comm_ring_1, 'm, 'c, 'ks, 'vd, 'nz, 'kp, 'kv) engine
    \<Rightarrow> ('b, 'p, 'so, 'ks, 'vd, 'nz, 'kp) factory \<Rightarrow> nat \<times> nat
    \<Rightarrow> ('m, 'c, 's) result list \<Rightarrow> error option \<times> ('m, 'c, 's) result list" where
  "get_reduced_hexagons eng factory mp_params worker_results =
    (case mp_params of (child_id, n_proc) \<Rightarrow>
      for_loop (hexagon_step eng factory child_id n_proc)
        (enumerate_ulong (product_repeat (FR_basis (FR factory)) 6)) worker_results)"

text \<open>
  \<^verbatim>\<open>get_reduced_pentagons(factory, mp_params, prune=True)\<close>. Here \<^verbatim>\<open>child_id\<close> and
  \<^verbatim>\<open>n_proc\<close> are declared \<^verbatim>\<open>cdef int\<close>: unpacking \<^verbatim>\<open>mp_params\<close> raises \<^verbatim>\<open>OverflowError\<close>
  for a value that does not fit 32 bits, and, the function being compiled with
  \<^verbatim>\<open>cdivision(True)\<close>, a zero \<^verbatim>\<open>n_proc\<close> is a division by zero in C, a \<open>Fault\<close>.
\<close>

definition pentagon_body ::
  "('p::comm_ring_1, 'm, 'c, 'ks, 'vd, 'nz, 'kp, 'kv) engine
    \<Rightarrow> ('b, 'p, 'so, 'ks, 'vd, 'nz, 'kp) factory \<Rightarrow> bool
    \<Rightarrow> 'b list \<Rightarrow> ('m, 'c, 's) result list \<Rightarrow> error + ('m, 'c, 's) result list" where
  "pentagon_body eng factory prune nonuple worker_results =
    (case feq_cy factory nonuple (Some prune) of
       Inl err \<Rightarrow> Inl err
     | Inr pe \<Rightarrow>
        Inr (if pe \<noteq> 0
             then worker_results @
               [Poly (reduce_poly_dict eng (poly_dict eng pe) (nnz factory) (ks factory))]
             else worker_results))"

definition pentagon_step ::
  "('p::comm_ring_1, 'm, 'c, 'ks, 'vd, 'nz, 'kp, 'kv) engine
    \<Rightarrow> ('b, 'p, 'so, 'ks, 'vd, 'nz, 'kp) factory \<Rightarrow> bool \<Rightarrow> nat \<Rightarrow> nat
    \<Rightarrow> nat \<times> 'b list \<Rightarrow> ('m, 'c, 's) result list \<Rightarrow> error + ('m, 'c, 's) result list" where
  "pentagon_step eng factory prune child_id n_proc item worker_results =
    (case item of (i, nonuple) \<Rightarrow>
      if n_proc = 0 then Inl Fault
      else if i mod n_proc = child_id
        then pentagon_body eng factory prune nonuple worker_results
      else Inr worker_results)"

definition get_reduced_pentagons ::
  "('p::comm_ring_1, 'm, 'c, 'ks, 'vd, 'nz, 'kp, 'kv) engine
    \<Rightarrow> ('b, 'p, 'so, 'ks, 'vd, 'nz, 'kp) factory \<Rightarrow> nat \<times> nat \<Rightarrow> bool option
    \<Rightarrow> ('m, 'c, 's) result list \<Rightarrow> error option \<times> ('m, 'c, 's) result list" where
  "get_reduced_pentagons eng factory mp_params prune_arg worker_results =
    (let prune = (case prune_arg of None \<Rightarrow> True | Some p \<Rightarrow> p) in
     case mp_params of (child_id, n_proc) \<Rightarrow>
      if 2 ^ 31 \<le> child_id \<or> 2 ^ 31 \<le> n_proc then (Some OverflowError, worker_results)
      else for_loop (pentagon_step eng factory prune child_id n_proc)
        (enumerate_ulong (product_repeat (FR_basis (FR factory)) 9)) worker_results)"

text \<open>
  The positions of an index space whose residue modulo the number of workers is the
  worker's id, each with its tuple: the items that pass the test
  \<^verbatim>\<open>i % n_proc == child_id\<close> of the two loops when the counter does not wrap around.
\<close>

definition assigned :: "nat \<Rightarrow> nat \<Rightarrow> 'a list \<Rightarrow> (nat \<times> 'a) list" where
  "assigned child_id n_proc tuples =
    filter (\<lambda>item. case item of (i, t) \<Rightarrow> i mod n_proc = child_id) (enumerate 0 tuples)"

text \<open>
  A loop body that also records, in a second component of the state, the counter of
  every iteration it completes. It observes a loop and changes nothing else about it.
  \<open>hexagons_traced\<close> and \<open>pentagons_traced\<close> are the two worker loops run with such a body.
\<close>

definition traced ::
  "(nat \<times> 'a \<Rightarrow> 's \<Rightarrow> error + 's) \<Rightarrow> nat \<times> 'a \<Rightarrow> 's \<times> nat list \<Rightarrow> error + 's \<times> nat list" where
  "traced body item st =
    (case body item (fst st) of
       Inl err \<Rightarrow> Inl err
     | Inr s' \<Rightarrow> Inr (s', snd st @ [fst item]))"

definition hexagons_traced ::
  "('p::comm_ring_1, 'm, 'c, 'ks, 'vd, 'nz, 'kp, 'kv) engine
    \<Rightarrow> ('b, 'p, 'so, 'ks, 'vd, 'nz, 'kp) factory \<Rightarrow> nat \<times> nat
    \<Rightarrow> ('m, 'c, 's) result list \<Rightarrow> error option \<times> ('m, 'c, 's) result list \<times> nat list" where
  "hexagons_traced eng factory mp_params worker_results =
    (case mp_params of (child_id, n_proc) \<Rightarrow>
      for_loop (traced (hexagon_step eng factory child_id n_proc))
        (enumerate_ulong (product_repeat (FR_basis (FR factory)) 6)) (worker_results, []))"

definition pentagons_traced ::
  "('p::comm_ring_1, 'm, 'c, 'ks, 'vd, 'nz, 'kp, 'kv) engine
    \<Rightarrow> ('b, 'p, 'so, 'ks, 'vd, 'nz, 'kp) factory \<Rightarrow> nat \<times> nat \<Rightarrow> bool option
    \<Rightarrow> ('m, 'c, 's) result list \<Rightarrow> error option \<times> ('m, 'c, 's) result list \<times> nat list" where
  "pentagons_traced eng factory mp_params prune_arg worker_results =
    (let prune = (case prune_arg of None \<Rightarrow> True | Some p \<Rightarrow> p) in
     case mp_params of (child_id, n_proc) \<Rightarrow>
      if 2 ^ 31 \<le> child_id \<or> 2 ^ 31 \<le> n_proc then (Some OverflowError, worker_results, [])
      else for_loop (traced (pentagon_step eng factory prune child_id n_proc))
        (enumerate_ulong (product_repeat (FR_basis (FR factory)) 9)) (worker_results, []))"

section \<open>Update, broadcast and collection\<close>

text \<open>\<^verbatim>\<open>update_reduce(factory, eq_tup)\<close>.\<close>

definition update_reduce ::
  "('p, 'm, 'c, 'ks, 'vd, 'nz, 'kp, 'kv) engine
    \<Rightarrow> ('b, 'p, 'so, 'ks, 'vd, 'nz, 'kp) factory \<Rightarrow> ('m, 'c) poly_tup
    \<Rightarrow> ('m, 'c, 's) result list \<Rightarrow> ('m, 'c, 's) result list" where
  "update_reduce eng factory eq_tup worker_results =
    (let eq_dict = subs eng eq_tup (kp factory);
         reduced = (if tup_fixes_sq eng eq_dict then to_monic eng eq_dict
                    else reduce_poly_dict eng eq_dict (nnz factory) (ks factory))
     in worker_results @ [Poly reduced])"

text \<open>
  \<^verbatim>\<open>update_child_fmats(factory, data_tup)\<close>, for a tuple of four items (another length
  raises \<^verbatim>\<open>ValueError\<close> before any field is written). The three statements run in order
  on the same object: \<^verbatim>\<open>get_known_nonz\<close> sees the four new fields, and
  \<^verbatim>\<open>get_known_vals\<close> sees the new \<^verbatim>\<open>_nnz\<close> as well.
\<close>

definition update_child_fmats ::
  "('b, 'p, 'so, 'ks, 'vd, 'nz, 'kp, 'kv) fmatrix_methods
    \<Rightarrow> ('p, 'm, 'c, 'ks, 'vd, 'nz, 'kp, 'kv) engine
    \<Rightarrow> ('b, 'p, 'so, 'ks, 'vd, 'nz, 'kp) factory
    \<Rightarrow> ('b sextuple \<rightharpoonup> 'p) \<times> 'so \<times> 'ks \<times> 'vd
    \<Rightarrow> ('b, 'p, 'so, 'ks, 'vd, 'nz, 'kp) factory" where
  "update_child_fmats cls eng factory data_tup =
    (case data_tup of (new_fvars, new_solved, new_ks, new_var_degs) \<Rightarrow>
      let f1 = factory\<lparr>fvars := new_fvars, solved := new_solved,
                       ks := new_ks, var_degs := new_var_degs\<rparr>;
          f2 = f1\<lparr>nnz := get_known_nonz cls f1\<rparr>
      in f2\<lparr>kp := compute_known_powers eng (var_degs f2) (get_known_vals cls f2)\<rparr>)"

text \<open>
  \<^verbatim>\<open>collect_eqns(proc)\<close> returns \<^verbatim>\<open>list(set(worker_results) - set([tuple()]))\<close> and
  rebinds \<^verbatim>\<open>worker_results\<close> to a new empty list; the result here is the returned list
  and the new buffer. The order in which Python iterates over a set is not fixed by
  the language: the list below is one such order, and the theorems about it speak of
  its elements only.
\<close>

definition collect_eqns ::
  "'x \<Rightarrow> ('m, 'c, 's) result list \<Rightarrow> ('m, 'c, 's) result list \<times> ('m, 'c, 's) result list" where
  "collect_eqns proc worker_results = (removeAll (Poly []) (remdups worker_results), [])"

section \<open>The executor\<close>

text \<open>
  A worker process: the objects it holds, by address, and the module's list
  \<^verbatim>\<open>worker_results\<close>. An address holds the \<^verbatim>\<open>FMatrix\<close> structure, another live object,
  or nothing.
\<close>

datatype 'f py_object = Structure 'f | Other_object

record ('f, 'r) process =
  heap :: "nat \<rightharpoonup> 'f py_object"
  results :: "'r list"

text \<open>
  What the name of a module attribute is bound to: a function that can be called with
  two positional arguments (given by its effect on the object, the buffer and its
  result), a function of one parameter, or a value that cannot be called.
\<close>

datatype ('f, 'a, 'r, 'v) attribute =
    Function2 "'f py_object \<Rightarrow> 'a \<Rightarrow> 'r list \<Rightarrow> (error + 'v) \<times> 'f py_object \<times> 'r list"
  | Function1
  | Plain_value

text \<open>
  \<^verbatim>\<open>executor(params)\<close>. \<^verbatim>\<open>ctypes.cast(fmats_id, ctypes.py_object).value\<close> reads the
  address without any check and comes first; \<^verbatim>\<open>getattr(mod, fn_name)\<close> raises
  \<^verbatim>\<open>AttributeError\<close> for a name the module does not have; the call raises \<^verbatim>\<open>TypeError\<close>
  when the attribute does not take two positional arguments.
\<close>

definition executor ::
  "(string \<rightharpoonup> ('f, 'a, 'r, 'v) attribute) \<Rightarrow> (string \<times> nat) \<times> 'a
    \<Rightarrow> ('f, 'r) process \<Rightarrow> (error + 'v) \<times> ('f, 'r) process" where
  "executor mod_attrs params p =
    (case params of ((fn_name, fmats_id), args) \<Rightarrow>
      (case heap p fmats_id of
         None \<Rightarrow> (Inl Fault, p)
       | Some fmats_obj \<Rightarrow>
          (case mod_attrs fn_name of
             None \<Rightarrow> (Inl AttributeError, p)
           | Some (Function2 f) \<Rightarrow>
              (case f fmats_obj args (results p) of (res, obj', buf') \<Rightarrow>
                (res, p\<lparr>heap := (heap p)(fmats_id \<mapsto> obj'), results := buf'\<rparr>))
           | Some _ \<Rightarrow> (Inl TypeError, p))))"

text \<open>
  \<^verbatim>\<open>get_reduced_hexagons\<close> as the executor calls it: on an object that is not the
  structure, the first read of \<^verbatim>\<open>factory.FR\<close> raises \<^verbatim>\<open>AttributeError\<close>.
\<close>

definition hexagons_attr ::
  "('p::comm_ring_1, 'm, 'c, 'ks, 'vd, 'nz, 'kp, 'kv) engine
    \<Rightarrow> (('b, 'p, 'so, 'ks, 'vd, 'nz, 'kp) factory, nat \<times> nat, ('m, 'c, 's) result, unit) attribute" where
  "hexagons_attr eng = Function2 (\<lambda>obj mp_params worker_results.
     case obj of
       Other_object \<Rightarrow> (Inl AttributeError, obj, worker_results)
     | Structure factory \<Rightarrow>
        (case get_reduced_hexagons eng factory mp_params worker_results of
           (None, buf) \<Rightarrow> (Inr (), obj, buf)
         | (Some err, buf) \<Rightarrow> (Inl err, obj, buf)))"

section \<open>Verification\<close>











section \<open>Concrete structures\<close>

text \<open>
  A concrete structure used to run the definitions: the Fibonacci fusion ring, with
  basis \<open>[0, 1]\<close> (\<open>0\<close> the identity, \<open>1 * 1 = 0 + 1\<close>), trivial R-matrix scalars and
  every stored F-symbol equal to \<open>1\<close>, over the integers.
\<close>

definition fib_ring :: "(nat, int) fusion_ring" where
  "fib_ring = \<lparr> FR_basis = [0, 1], FR_one = 0,
      Nk_ij = (\<lambda>i j k. if i = 0 then (if j = k then 1 else 0)
                        else if j = 0 then (if i = k then 1 else 0) else 1),
      r_matrix = (\<lambda>_ _ _. 1) \<rparr>"

definition fib_factory :: "(nat, int, unit, unit, unit, unit, unit) factory" where
  "fib_factory = \<lparr> FR = fib_ring, fvars = (\<lambda>_. Some 1),
      solved = (), ks = (), var_degs = (), nnz = (), kp = () \<rparr>"

text \<open>
  The trivial structure: the identity is the only basis element.
\<close>

definition trivial_factory :: "(nat, int, unit, unit, unit, unit, unit) factory" where
  "trivial_factory = \<lparr> FR = \<lparr> FR_basis = [0], FR_one = 0,
        Nk_ij = (\<lambda>_ _ _. 1), r_matrix = (\<lambda>_ _ _. 1) \<rparr>,
      fvars = Map.empty, solved = (), ks = (), var_degs = (), nnz = (), kp = () \<rparr>"

text \<open>
  A stand-in for the external engine, for polynomials that are integer constants and
  equations with rational coefficients: a nonzero constant is a polynomial of one
  term, substitution and reduction change nothing, an equation fixes a square when it
  has the two terms \<open>c * x^2\<close> and a constant, and the monic form divides by the
  leading coefficient.
\<close>

definition plain_engine :: "(int, nat list, rat, unit, unit, unit, unit, unit) engine" where
  "plain_engine = \<lparr> poly_dict = (\<lambda>p. if p = 0 then [] else [([], of_int p)]),
      reduce_poly_dict = (\<lambda>d _ _. d), subs = (\<lambda>t _. t),
      tup_fixes_sq = (\<lambda>t. case t of [(m, c), (m', c')] \<Rightarrow> m = [2] \<and> m' = [] | _ \<Rightarrow> False),
      to_monic = (\<lambda>t. case t of [] \<Rightarrow> [] | (m, c) # rest \<Rightarrow> map (\<lambda>(m', c'). (m', c' / c)) t),
      compute_known_powers = (\<lambda>_ _. ()) \<rparr>"

text \<open>
  Three attributes of the module, as the executor finds them: the operation
  \<^verbatim>\<open>get_reduced_hexagons\<close>, the function \<^verbatim>\<open>collect_eqns(proc)\<close> of one parameter and
  the list \<^verbatim>\<open>worker_results\<close>. A process that holds the Fibonacci structure at address
  \<open>1000\<close> and another object at address \<open>2000\<close>.
\<close>

definition module_attrs ::
  "string \<rightharpoonup> ((nat, int, unit, unit, unit, unit, unit) factory, nat \<times> nat,
      (nat list, rat, unit) result, unit) attribute" where
  "module_attrs = [''get_reduced_hexagons'' \<mapsto> hexagons_attr plain_engine,
      ''collect_eqns'' \<mapsto> Function1, ''worker_results'' \<mapsto> Plain_value]"

definition fib_process ::
  "((nat, int, unit, unit, unit, unit, unit) factory, (nat list, rat, unit) result) process" where
  "fib_process = \<lparr> heap = [1000 \<mapsto> Structure fib_factory, 2000 \<mapsto> Other_object],
      results = [] \<rparr>"


section \<open>The structure-constant lookup\<close>

lemma fmat_side_zero:
  "Nk_ij (FR factory) a b x = 0 \<or> Nk_ij (FR factory) x c d = 0
     \<or> Nk_ij (FR factory) b c y = 0 \<or> Nk_ij (FR factory) a y d = 0
   \<Longrightarrow> fmat factory a b c d x y = Inr 0"
  unfolding fmat_def by (rule if_P)

lemma fmat_side_nonzero:
  "Nk_ij (FR factory) a b x \<noteq> 0 \<Longrightarrow> Nk_ij (FR factory) x c d \<noteq> 0
   \<Longrightarrow> Nk_ij (FR factory) b c y \<noteq> 0 \<Longrightarrow> Nk_ij (FR factory) a y d \<noteq> 0
   \<Longrightarrow> fmat factory a b c d x y =
     (if a = FR_one (FR factory) then (if x = b \<and> y = d then Inr 1 else Inr 0)
      else if b = FR_one (FR factory) then (if x = a \<and> y = c then Inr 1 else Inr 0)
      else if c = FR_one (FR factory) then (if x = d \<and> y = b then Inr 1 else Inr 0)
      else (case fvars factory (a, b, c, d, x, y) of
              None \<Rightarrow> Inl KeyError
            | Some v \<Rightarrow> Inr v))"
  unfolding fmat_def by (subst if_not_P) blast+

lemma fib_Nk: "Nk_ij (FR fib_factory) i j k = (if i = 0 then (if j = k then 1 else 0)
                        else if j = 0 then (if i = k then 1 else 0) else 1)"
  and fib_one: "FR_one (FR fib_factory) = 0"
  by (simp_all add: fib_factory_def fib_ring_def)

text \<open>
  C2. \<^verbatim>\<open>_fmat\<close> returns \<open>0\<close> as soon as one of the four fusion multiplicities
  \<open>Nk_ij(a,b,x)\<close>, \<open>Nk_ij(x,c,d)\<close>, \<open>Nk_ij(b,c,y)\<close>, \<open>Nk_ij(a,y,d)\<close> is zero, whatever
  the other arguments are and whatever the table \<^verbatim>\<open>_fvars\<close> holds. Otherwise the first
  of \<open>a\<close>, \<open>b\<close>, \<open>c\<close> that equals the identity element decides: the result is \<open>1\<close> exactly
  when its index pattern matches (\<open>a\<close>: \<open>x = b\<close> and \<open>y = d\<close>; \<open>b\<close>: \<open>x = a\<close> and
  \<open>y = c\<close>; \<open>c\<close>: \<open>x = d\<close> and \<open>y = b\<close>) and \<open>0\<close> otherwise, again for every table: the
  table is not read. Otherwise the result is the value stored for the sextuple, and
  \<^verbatim>\<open>KeyError\<close> when the table has none. The structure \<open>factory\<lparr>fvars := t\<rparr>\<close> ranges over
  all structures and all tables.
\<close>

theorem fmat_three_tiers:
  fixes factory :: "('b, 'p::comm_ring_1, 'so, 'ks, 'vd, 'nz, 'kp) factory"
  shows "(Nk_ij (FR factory) a b x = 0 \<or> Nk_ij (FR factory) x c d = 0
            \<or> Nk_ij (FR factory) b c y = 0 \<or> Nk_ij (FR factory) a y d = 0
            \<longrightarrow> fmat (factory\<lparr>fvars := t\<rparr>) a b c d x y = Inr 0)
    \<and> (Nk_ij (FR factory) a b x \<noteq> 0 \<and> Nk_ij (FR factory) x c d \<noteq> 0
         \<and> Nk_ij (FR factory) b c y \<noteq> 0 \<and> Nk_ij (FR factory) a y d \<noteq> 0 \<longrightarrow>
         (a = FR_one (FR factory) \<longrightarrow>
              fmat (factory\<lparr>fvars := t\<rparr>) a b c d x y = Inr (if x = b \<and> y = d then 1 else 0)
            \<and> (fmat (factory\<lparr>fvars := t\<rparr>) a b c d x y = Inr 1 \<longleftrightarrow> x = b \<and> y = d))
       \<and> (a \<noteq> FR_one (FR factory) \<and> b = FR_one (FR factory) \<longrightarrow>
              fmat (factory\<lparr>fvars := t\<rparr>) a b c d x y = Inr (if x = a \<and> y = c then 1 else 0)
            \<and> (fmat (factory\<lparr>fvars := t\<rparr>) a b c d x y = Inr 1 \<longleftrightarrow> x = a \<and> y = c))
       \<and> (a \<noteq> FR_one (FR factory) \<and> b \<noteq> FR_one (FR factory) \<and> c = FR_one (FR factory) \<longrightarrow>
              fmat (factory\<lparr>fvars := t\<rparr>) a b c d x y = Inr (if x = d \<and> y = b then 1 else 0)
            \<and> (fmat (factory\<lparr>fvars := t\<rparr>) a b c d x y = Inr 1 \<longleftrightarrow> x = d \<and> y = b))
       \<and> (a \<noteq> FR_one (FR factory) \<and> b \<noteq> FR_one (FR factory) \<and> c \<noteq> FR_one (FR factory) \<longrightarrow>
              fmat (factory\<lparr>fvars := t\<rparr>) a b c d x y =
                (case t (a, b, c, d, x, y) of None \<Rightarrow> Inl KeyError | Some v \<Rightarrow> Inr v)))"
proof (intro conjI impI)
  assume "Nk_ij (FR factory) a b x = 0 \<or> Nk_ij (FR factory) x c d = 0
            \<or> Nk_ij (FR factory) b c y = 0 \<or> Nk_ij (FR factory) a y d = 0"
  then show "fmat (factory\<lparr>fvars := t\<rparr>) a b c d x y = Inr 0"
    by (intro fmat_side_zero) simp
next
  assume nz: "Nk_ij (FR factory) a b x \<noteq> 0 \<and> Nk_ij (FR factory) x c d \<noteq> 0
         \<and> Nk_ij (FR factory) b c y \<noteq> 0 \<and> Nk_ij (FR factory) a y d \<noteq> 0"
  have eq: "fmat (factory\<lparr>fvars := t\<rparr>) a b c d x y =
     (if a = FR_one (FR factory) then (if x = b \<and> y = d then Inr 1 else Inr 0)
      else if b = FR_one (FR factory) then (if x = a \<and> y = c then Inr 1 else Inr 0)
      else if c = FR_one (FR factory) then (if x = d \<and> y = b then Inr 1 else Inr 0)
      else (case t (a, b, c, d, x, y) of
              None \<Rightarrow> Inl KeyError
            | Some v \<Rightarrow> Inr v))"
    using nz fmat_side_nonzero [of "factory\<lparr>fvars := t\<rparr>" a b x c d y] by simp
  {
    assume "a = FR_one (FR factory)"
    then show "fmat (factory\<lparr>fvars := t\<rparr>) a b c d x y = Inr (if x = b \<and> y = d then 1 else 0)"
      and "fmat (factory\<lparr>fvars := t\<rparr>) a b c d x y = Inr 1 \<longleftrightarrow> x = b \<and> y = d"
      unfolding eq by simp_all
  }
  {
    assume "a \<noteq> FR_one (FR factory) \<and> b = FR_one (FR factory)"
    then show "fmat (factory\<lparr>fvars := t\<rparr>) a b c d x y = Inr (if x = a \<and> y = c then 1 else 0)"
      and "fmat (factory\<lparr>fvars := t\<rparr>) a b c d x y = Inr 1 \<longleftrightarrow> x = a \<and> y = c"
      unfolding eq by simp_all
  }
  {
    assume "a \<noteq> FR_one (FR factory) \<and> b \<noteq> FR_one (FR factory) \<and> c = FR_one (FR factory)"
    then show "fmat (factory\<lparr>fvars := t\<rparr>) a b c d x y = Inr (if x = d \<and> y = b then 1 else 0)"
      and "fmat (factory\<lparr>fvars := t\<rparr>) a b c d x y = Inr 1 \<longleftrightarrow> x = d \<and> y = b"
      unfolding eq by simp_all
  }
  {
    assume "a \<noteq> FR_one (FR factory) \<and> b \<noteq> FR_one (FR factory) \<and> c \<noteq> FR_one (FR factory)"
    then show "fmat (factory\<lparr>fvars := t\<rparr>) a b c d x y =
                (case t (a, b, c, d, x, y) of None \<Rightarrow> Inl KeyError | Some v \<Rightarrow> Inr v)"
      unfolding eq by simp
  }
qed

theorem fmat_three_tiers_witness:
  "fmat (fib_factory\<lparr>fvars := Map.empty\<rparr>) 0 1 1 1 0 1 = Inr 0
   \<and> fmat (fib_factory\<lparr>fvars := Map.empty\<rparr>) 0 1 1 1 1 1 = Inr 1
   \<and> fmat (fib_factory\<lparr>fvars := Map.empty\<rparr>) 1 0 1 1 1 1 = Inr 1
   \<and> fmat (fib_factory\<lparr>fvars := Map.empty\<rparr>) 1 1 0 1 1 1 = Inr 1
   \<and> fmat (fib_factory\<lparr>fvars := [(1, 1, 1, 1, 1, 1) \<mapsto> 7]\<rparr>) 1 1 1 1 1 1 = Inr 7
   \<and> fmat (fib_factory\<lparr>fvars := Map.empty\<rparr>) 1 1 1 1 1 1 = Inl KeyError"
  using fmat_three_tiers [where factory = fib_factory and a = 0 and b = 1 and c = 1 and d = 1
      and x = 0 and y = 1 and t = Map.empty]
    fmat_three_tiers [where factory = fib_factory and a = 0 and b = 1 and c = 1 and d = 1
      and x = 1 and y = 1 and t = Map.empty]
    fmat_three_tiers [where factory = fib_factory and a = 1 and b = 0 and c = 1 and d = 1
      and x = 1 and y = 1 and t = Map.empty]
    fmat_three_tiers [where factory = fib_factory and a = 1 and b = 1 and c = 0 and d = 1
      and x = 1 and y = 1 and t = Map.empty]
    fmat_three_tiers [where factory = fib_factory and a = 1 and b = 1 and c = 1 and d = 1
      and x = 1 and y = 1 and t = "[(1, 1, 1, 1, 1, 1) \<mapsto> 7]"]
    fmat_three_tiers [where factory = fib_factory and a = 1 and b = 1 and c = 1 and d = 1
      and x = 1 and y = 1 and t = Map.empty]
  by (simp add: fib_Nk fib_one)

section \<open>The collector\<close>

text \<open>
  C6. For every buffer, \<^verbatim>\<open>collect_eqns\<close> leaves the buffer empty and returns the entries
  of the old buffer other than the zero equation \<^verbatim>\<open>tuple()\<close>, which never is in its
  output; in particular it is not in what the collector returns after a run of the
  hexagon generator.
\<close>

theorem collect_eqns_drains:
  "snd (collect_eqns proc worker_results) = []
   \<and> set (fst (collect_eqns proc worker_results)) = set worker_results - {Poly []}
   \<and> Poly [] \<notin> set (fst (collect_eqns proc worker_results))
   \<and> Poly [] \<notin> set (fst (collect_eqns proc
        (snd (get_reduced_hexagons eng factory mp_params worker_results))))"
  by (simp add: collect_eqns_def)

text \<open>
  C10. For every buffer and every argument, the list that \<^verbatim>\<open>collect_eqns\<close> returns
  has no duplicates, and neither the list nor the new buffer depends on the argument
  \<^verbatim>\<open>proc\<close>.
\<close>

theorem collect_eqns_distinct_ignores_proc:
  "distinct (fst (collect_eqns proc worker_results))
   \<and> collect_eqns proc worker_results = collect_eqns proc' worker_results"
  by (simp add: collect_eqns_def distinct_removeAll)

section \<open>The index partition\<close>

lemma length_product_repeat: "length (product_repeat xs k) = length xs ^ k"
  by (induction k) (simp_all add: length_concat comp_def sum_list_triv)

lemma enumerate_ulong_eq:
  assumes "length xs \<le> 2 ^ 64"
  shows "enumerate_ulong xs = enumerate 0 xs"
proof -
  have "map (\<lambda>i. i mod 2 ^ 64) [0..<length xs] = map (\<lambda>i. i) [0..<length xs]"
    by (rule map_cong) (use assms in auto)
  then show ?thesis
    by (simp add: enumerate_ulong_def enumerate_eq_zip)
qed

lemma for_loop_filter_map:
  assumes "\<And>x s. x \<in> set xs \<Longrightarrow> body x s = (if P x then body' (g x) s else Inr s)"
  shows "for_loop body xs s = for_loop body' (map g (filter P xs)) s"
  using assms
proof (induction xs arbitrary: s)
  case Nil
  then show ?case by simp
next
  case (Cons x xs)
  have step: "body x s = (if P x then body' (g x) s else Inr s)"
    using Cons.prems by simp
  have rest: "\<And>s'. for_loop body xs s' = for_loop body' (map g (filter P xs)) s'"
    using Cons.IH Cons.prems by simp
  show ?case
  proof (cases "P x")
    case True
    then show ?thesis using step rest by (simp split: sum.splits)
  next
    case False
    then show ?thesis using step rest by simp
  qed
qed

lemma assigned_eq:
  "assigned w n tuples = map (\<lambda>i. (i, tuples ! i)) (filter (\<lambda>i. i mod n = w) [0..<length tuples])"
proof -
  have "enumerate 0 tuples = map (\<lambda>i. (i, tuples ! i)) [0..<length tuples]"
    by (rule nth_equalityI) (simp_all add: nth_enumerate_eq)
  then show ?thesis
    by (simp add: assigned_def filter_map comp_def)
qed

lemma positions_assigned:
  "map fst (assigned w n tuples) = filter (\<lambda>i. i mod n = w) [0..<length tuples]"
  by (simp add: assigned_eq comp_def)

lemma hexagons_striped:
  assumes "0 < n" and "length (FR_basis (FR factory)) ^ 6 \<le> 2 ^ 64"
  shows "get_reduced_hexagons eng factory (w, n) buf =
    for_loop (hexagon_body eng factory)
      (map snd (assigned w n (product_repeat (FR_basis (FR factory)) 6))) buf"
proof -
  have e: "enumerate_ulong (product_repeat (FR_basis (FR factory)) 6)
      = enumerate 0 (product_repeat (FR_basis (FR factory)) 6)"
    by (rule enumerate_ulong_eq) (use assms(2) in \<open>simp add: length_product_repeat\<close>)
  show ?thesis
    unfolding get_reduced_hexagons_def assigned_def prod.case e
    by (rule for_loop_filter_map) (use assms(1) in \<open>auto simp: hexagon_step_def\<close>)
qed

lemma pentagons_striped:
  assumes "0 < n" and "w < 2 ^ 31" and "n < 2 ^ 31"
    and "length (FR_basis (FR factory)) ^ 9 \<le> 2 ^ 64"
  shows "get_reduced_pentagons eng factory (w, n) prune_arg buf =
    for_loop (pentagon_body eng factory (case prune_arg of None \<Rightarrow> True | Some p \<Rightarrow> p))
      (map snd (assigned w n (product_repeat (FR_basis (FR factory)) 9))) buf"
proof -
  have e: "enumerate_ulong (product_repeat (FR_basis (FR factory)) 9)
      = enumerate 0 (product_repeat (FR_basis (FR factory)) 9)"
    by (rule enumerate_ulong_eq) (use assms(4) in \<open>simp add: length_product_repeat\<close>)
  have g: "\<not> ((2::nat) ^ 31 \<le> w \<or> (2::nat) ^ 31 \<le> n)"
    using assms(2,3) by simp
  show ?thesis
    unfolding get_reduced_pentagons_def assigned_def prod.case Let_def e if_not_P [OF g]
    by (rule for_loop_filter_map) (use assms(1) in \<open>auto simp: pentagon_step_def\<close>)
qed

text \<open>
  C1. For every number of workers \<open>n_proc > 0\<close> and every index space, of any size,
  the worker \<open>w\<close> is assigned exactly the positions \<open>i\<close> below the size with
  \<open>i mod n_proc = w\<close>, each with the tuple at that position, in increasing order; the
  positions of two different workers are disjoint, and the positions of the workers
  \<open>0, \<dots>, n_proc - 1\<close> together are all positions. The positions depend on the size
  and on \<open>(w, n_proc)\<close> only. The two generators run their loop body on the tuples
  assigned to the worker, in order, and on nothing else; this is stated for the
  index spaces and worker numbers that the C types of the counter (64 bits) and, in
  the pentagon generator, of the worker id and number (32 bits) can hold.
\<close>

theorem partition_completeness:
  fixes tuples :: "'a list"
  shows "0 < n_proc \<Longrightarrow>
     (\<forall>w. assigned w n_proc tuples =
            map (\<lambda>i. (i, tuples ! i)) (filter (\<lambda>i. i mod n_proc = w) [0..<length tuples]))
   \<and> (\<forall>w. sorted_wrt (<) (map fst (assigned w n_proc tuples)))
   \<and> (\<forall>w w'. w \<noteq> w' \<longrightarrow>
          set (map fst (assigned w n_proc tuples)) \<inter> set (map fst (assigned w' n_proc tuples)) = {})
   \<and> (\<Union>w \<in> {0..<n_proc}. set (map fst (assigned w n_proc tuples))) = {0..<length tuples}
   \<and> (\<forall>w (tuples' :: 'a list). length tuples' = length tuples \<longrightarrow>
          map fst (assigned w n_proc tuples') = map fst (assigned w n_proc tuples))
   \<and> (\<forall>w. length (FR_basis (FR factory)) ^ 6 \<le> 2 ^ 64 \<longrightarrow>
          get_reduced_hexagons eng factory (w, n_proc) buf =
          for_loop (hexagon_body eng factory)
            (map snd (assigned w n_proc (product_repeat (FR_basis (FR factory)) 6))) buf)
   \<and> (\<forall>w prune_arg.
          w < 2 ^ 31 \<and> n_proc < 2 ^ 31 \<and> length (FR_basis (FR factory)) ^ 9 \<le> 2 ^ 64 \<longrightarrow>
          get_reduced_pentagons eng factory (w, n_proc) prune_arg buf =
          for_loop (pentagon_body eng factory (case prune_arg of None \<Rightarrow> True | Some p \<Rightarrow> p))
            (map snd (assigned w n_proc (product_repeat (FR_basis (FR factory)) 9))) buf)"
proof (intro conjI allI impI)
  fix w
  show "assigned w n_proc tuples =
      map (\<lambda>i. (i, tuples ! i)) (filter (\<lambda>i. i mod n_proc = w) [0..<length tuples])"
    by (rule assigned_eq)
  show "sorted_wrt (<) (map fst (assigned w n_proc tuples))"
    unfolding positions_assigned by (rule sorted_wrt_filter) (simp add: sorted_wrt_upt)
next
  fix w w' :: nat
  assume "w \<noteq> w'"
  then show "set (map fst (assigned w n_proc tuples)) \<inter> set (map fst (assigned w' n_proc tuples)) = {}"
    unfolding positions_assigned by auto
next
  assume pos: "0 < n_proc"
  show "(\<Union>w \<in> {0..<n_proc}. set (map fst (assigned w n_proc tuples))) = {0..<length tuples}"
    unfolding positions_assigned using pos by auto
next
  fix w and tuples' :: "'a list"
  assume "length tuples' = length tuples"
  then show "map fst (assigned w n_proc tuples') = map fst (assigned w n_proc tuples)"
    by (simp only: positions_assigned)
next
  fix w
  assume pos: "0 < n_proc" and small: "length (FR_basis (FR factory)) ^ 6 \<le> 2 ^ 64"
  show "get_reduced_hexagons eng factory (w, n_proc) buf =
          for_loop (hexagon_body eng factory)
            (map snd (assigned w n_proc (product_repeat (FR_basis (FR factory)) 6))) buf"
    using pos small by (rule hexagons_striped)
next
  fix w :: nat and prune_arg
  assume pos: "0 < n_proc"
    and small: "w < 2 ^ 31 \<and> n_proc < 2 ^ 31 \<and> length (FR_basis (FR factory)) ^ 9 \<le> 2 ^ 64"
  show "get_reduced_pentagons eng factory (w, n_proc) prune_arg buf =
          for_loop (pentagon_body eng factory (case prune_arg of None \<Rightarrow> True | Some p \<Rightarrow> p))
            (map snd (assigned w n_proc (product_repeat (FR_basis (FR factory)) 9))) buf"
    using pos small by (intro pentagons_striped) simp_all
qed

lemma fib_basis: "FR_basis (FR fib_factory) = [0, 1]"
  by (simp add: fib_factory_def fib_ring_def)

lemma trivial_basis: "FR_basis (FR trivial_factory) = [0]"
  by (simp add: trivial_factory_def)

lemma hexagon_bodies_fib:
  "for_loop (hexagon_body plain_engine fib_factory)
      (map snd (assigned 0 2 (product_repeat [0, 1] 6))) ([] :: (nat list, rat, unit) result list)
    = (None, [Poly [([], - 1)], Poly [([], - 1)]])"
  by code_simp

lemma enumerate_ulong_fib6:
  "enumerate_ulong (product_repeat [0::nat, 1] 6) = enumerate 0 (product_repeat [0, 1] 6)"
proof -
  have l: "length [0::nat, 1] = 2" by simp
  show ?thesis
    by (rule enumerate_ulong_eq) (simp only: length_product_repeat l, simp)
qed

lemma hexagons_traced_fib:
  "hexagons_traced plain_engine fib_factory (0, 2) ([] :: (nat list, rat, unit) result list)
     = (None, [Poly [([], - 1)], Poly [([], - 1)]], [0..<64])"
proof -
  have "for_loop (traced (hexagon_step plain_engine fib_factory 0 2))
      (enumerate 0 (product_repeat [0, 1] 6)) ([] :: (nat list, rat, unit) result list, [])
     = (None, [Poly [([], - 1)], Poly [([], - 1)]], [0..<64])"
    by code_simp
  then show ?thesis
    by (simp only: hexagons_traced_def prod.case fib_basis enumerate_ulong_fib6)
qed

theorem partition_completeness_witness:
  "(0::nat) < 3
   \<and> assigned 0 3 ''abcdefghij'' = [(0, CHR ''a''), (3, CHR ''d''), (6, CHR ''g''), (9, CHR ''j'')]
   \<and> set (map fst (assigned 0 3 ''abcdefghij'')) \<inter> set (map fst (assigned 1 3 ''abcdefghij'')) = {}
   \<and> set (map fst (assigned 0 3 ''abcdefghij'')) \<union> set (map fst (assigned 1 3 ''abcdefghij''))
       \<union> set (map fst (assigned 2 3 ''abcdefghij'')) = {0..<10}
   \<and> map fst (assigned 1 3 ''0123456789'') = map fst (assigned 1 3 ''abcdefghij'')
   \<and> get_reduced_hexagons plain_engine fib_factory (2, 3) ([] :: (nat list, rat, unit) result list)
       = for_loop (hexagon_body plain_engine fib_factory)
           (map snd (assigned 2 3 (product_repeat [0, 1] 6))) []
   \<and> get_reduced_pentagons plain_engine fib_factory (2, 3) None
         ([] :: (nat list, rat, unit) result list)
       = for_loop (pentagon_body plain_engine fib_factory True)
           (map snd (assigned 2 3 (product_repeat [0, 1] 9))) []"
proof -
  have pos: "(0::nat) < 3" by simp
  note t = partition_completeness [OF pos, where tuples = "''abcdefghij''" and eng = plain_engine
      and factory = fib_factory and buf = "[] :: (nat list, rat, unit) result list"]
  have "assigned 0 3 ''abcdefghij'' =
      map (\<lambda>i. (i, ''abcdefghij'' ! i)) (filter (\<lambda>i. i mod 3 = 0) [0..<length ''abcdefghij''])"
    using t by (elim conjE allE)
  also have "\<dots> = [(0, CHR ''a''), (3, CHR ''d''), (6, CHR ''g''), (9, CHR ''j'')]"
    by code_simp
  finally have a: "assigned 0 3 ''abcdefghij'' =
      [(0, CHR ''a''), (3, CHR ''d''), (6, CHR ''g''), (9, CHR ''j'')]" .
  have "(0::nat) \<noteq> 1 \<longrightarrow>
      set (map fst (assigned 0 3 ''abcdefghij'')) \<inter> set (map fst (assigned 1 3 ''abcdefghij'')) = {}"
    using t by (elim conjE allE)
  then have b: "set (map fst (assigned 0 3 ''abcdefghij'')) \<inter> set (map fst (assigned 1 3 ''abcdefghij'')) = {}"
    by simp
  have "(\<Union>w \<in> {0..<3}. set (map fst (assigned w 3 ''abcdefghij''))) = {0..<length ''abcdefghij''}"
    using t by (elim conjE)
  moreover have "{0..<3::nat} = {0, 1, 2}" by auto
  moreover have len: "length ''abcdefghij'' = 10" by code_simp
  ultimately have c: "set (map fst (assigned 0 3 ''abcdefghij'')) \<union> set (map fst (assigned 1 3 ''abcdefghij''))
       \<union> set (map fst (assigned 2 3 ''abcdefghij'')) = {0..<10}"
    by (simp only: UN_insert UN_empty Un_empty_right Un_assoc)
  have same: "length ''0123456789'' = length ''abcdefghij''" by code_simp
  have d: "map fst (assigned 1 3 ''0123456789'') = map fst (assigned 1 3 ''abcdefghij'')"
    using t [THEN conjunct2, THEN conjunct2, THEN conjunct2, THEN conjunct2, THEN conjunct1,
        rule_format, OF same] .
  have l: "length (FR_basis (FR fib_factory)) = 2"
    by (simp add: fib_basis)
  have s6: "length (FR_basis (FR fib_factory)) ^ 6 \<le> 2 ^ 64"
    unfolding l by simp
  have s9: "(2::nat) < 2 ^ 31 \<and> (3::nat) < 2 ^ 31 \<and> length (FR_basis (FR fib_factory)) ^ 9 \<le> 2 ^ 64"
    unfolding l by simp
  have e: "get_reduced_hexagons plain_engine fib_factory (2, 3) ([] :: (nat list, rat, unit) result list)
       = for_loop (hexagon_body plain_engine fib_factory)
           (map snd (assigned 2 3 (product_repeat [0, 1] 6))) []"
    using t [THEN conjunct2, THEN conjunct2, THEN conjunct2, THEN conjunct2, THEN conjunct2,
        THEN conjunct1, rule_format, OF s6, of 2]
    by (simp only: fib_basis)
  have f: "get_reduced_pentagons plain_engine fib_factory (2, 3) None
         ([] :: (nat list, rat, unit) result list)
       = for_loop (pentagon_body plain_engine fib_factory True)
           (map snd (assigned 2 3 (product_repeat [0, 1] 9))) []"
    using t [THEN conjunct2, THEN conjunct2, THEN conjunct2, THEN conjunct2, THEN conjunct2,
        THEN conjunct2, rule_format, OF s9, of None]
    by (simp only: fib_basis option.case)
  show ?thesis using pos a b c d e f by blast
qed

section \<open>What a worker enumerates\<close>

lemma hexagons_fib:
  "get_reduced_hexagons plain_engine fib_factory (0, 2) ([] :: (nat list, rat, unit) result list)
     = (None, [Poly [([], - 1)], Poly [([], - 1)]])"
proof -
  have l: "length (FR_basis (FR fib_factory)) = 2"
    by (simp add: fib_basis)
  have "length (FR_basis (FR fib_factory)) ^ 6 \<le> (2::nat) ^ 64"
    unfolding l by simp
  from hexagons_striped [OF _ this, of 2 plain_engine 0 "[] :: (nat list, rat, unit) result list"]
  show ?thesis
    by (simp only: fib_basis hexagon_bodies_fib)
qed

lemma pentagons_trivial:
  "get_reduced_pentagons plain_engine trivial_factory (1, 2) None
      ([] :: (nat list, rat, unit) result list) = (None, [])"
proof -
  have l: "length (FR_basis (FR trivial_factory)) = 1"
    by (simp add: trivial_basis)
  have a: "length (FR_basis (FR trivial_factory)) ^ 9 \<le> (2::nat) ^ 64"
    unfolding l by simp
  have b: "for_loop (pentagon_body plain_engine trivial_factory True)
      (map snd (assigned 1 2 (product_repeat [0] 9))) ([] :: (nat list, rat, unit) result list)
     = (None, [])"
    by code_simp
  have "get_reduced_pentagons plain_engine trivial_factory (1, 2) None
      ([] :: (nat list, rat, unit) result list)
    = for_loop (pentagon_body plain_engine trivial_factory (case None of None \<Rightarrow> True | Some p \<Rightarrow> p))
      (map snd (assigned 1 2 (product_repeat (FR_basis (FR trivial_factory)) 9))) []"
    by (rule pentagons_striped) (use a in simp_all)
  then show ?thesis
    by (simp only: trivial_basis b option.case)
qed

lemma map_fst_enumerate_ulong:
  "map fst (enumerate_ulong xs) = map (\<lambda>i. i mod 2 ^ 64) [0..<length xs]"
  by (simp add: enumerate_ulong_def)

lemma for_loop_traced_same:
  "fst (for_loop (traced body) xs (s, tr)) = fst (for_loop body xs s)
   \<and> fst (snd (for_loop (traced body) xs (s, tr))) = snd (for_loop body xs s)"
proof (induction xs arbitrary: s tr)
  case Nil
  show ?case by simp
next
  case (Cons x xs)
  show ?case
  proof (cases "body x s")
    case (Inl err)
    then show ?thesis by (simp add: traced_def)
  next
    case (Inr s')
    then show ?thesis using Cons.IH [of s' "tr @ [fst x]"] by (simp add: traced_def)
  qed
qed

lemma for_loop_traced_all:
  "fst (for_loop body xs s) = None \<Longrightarrow>
     snd (snd (for_loop (traced body) xs (s, tr))) = tr @ map fst xs"
proof (induction xs arbitrary: s tr)
  case Nil
  show ?case by simp
next
  case (Cons x xs)
  show ?case
  proof (cases "body x s")
    case (Inl err)
    then show ?thesis using Cons.prems by simp
  next
    case (Inr s')
    then show ?thesis using Cons.IH [of s' "tr @ [fst x]"] Cons.prems by (simp add: traced_def)
  qed
qed

text \<open>
  C4, as the code has it. Every worker runs through the whole enumeration: the run
  with the recording body is the same run (same exception, same buffer), and when no
  exception is raised the counter values of its completed iterations are those of
  all positions \<open>0, \<dots>, |basis|^6 - 1\<close> for the hexagons and \<open>0, \<dots>, |basis|^9 - 1\<close> for
  the pentagons, whatever the worker id and the number of workers are. The test
  \<^verbatim>\<open>i % n_proc == child_id\<close> only decides at which of them an equation is built: the
  loop body runs on the tuples assigned to the worker. The tuple of a position is the
  one the iterator yields there; the module has no map from a position to its tuple.
\<close>

theorem workers_enumerate_every_position:
  "fst (hexagons_traced eng factory (w, n_proc) buf) = fst (get_reduced_hexagons eng factory (w, n_proc) buf)
   \<and> fst (snd (hexagons_traced eng factory (w, n_proc) buf))
       = snd (get_reduced_hexagons eng factory (w, n_proc) buf)
   \<and> (fst (get_reduced_hexagons eng factory (w, n_proc) buf) = None \<longrightarrow>
        snd (snd (hexagons_traced eng factory (w, n_proc) buf))
          = map (\<lambda>i. i mod 2 ^ 64) [0..<length (FR_basis (FR factory)) ^ 6])
   \<and> fst (pentagons_traced eng factory (w, n_proc) prune_arg buf)
       = fst (get_reduced_pentagons eng factory (w, n_proc) prune_arg buf)
   \<and> fst (snd (pentagons_traced eng factory (w, n_proc) prune_arg buf))
       = snd (get_reduced_pentagons eng factory (w, n_proc) prune_arg buf)
   \<and> (fst (get_reduced_pentagons eng factory (w, n_proc) prune_arg buf) = None \<longrightarrow>
        snd (snd (pentagons_traced eng factory (w, n_proc) prune_arg buf))
          = map (\<lambda>i. i mod 2 ^ 64) [0..<length (FR_basis (FR factory)) ^ 9])
   \<and> (0 < n_proc \<and> length (FR_basis (FR factory)) ^ 6 \<le> 2 ^ 64 \<longrightarrow>
        get_reduced_hexagons eng factory (w, n_proc) buf =
          for_loop (hexagon_body eng factory)
            (map snd (assigned w n_proc (product_repeat (FR_basis (FR factory)) 6))) buf)
   \<and> (0 < n_proc \<and> w < 2 ^ 31 \<and> n_proc < 2 ^ 31
          \<and> length (FR_basis (FR factory)) ^ 9 \<le> 2 ^ 64 \<longrightarrow>
        get_reduced_pentagons eng factory (w, n_proc) prune_arg buf =
          for_loop (pentagon_body eng factory (case prune_arg of None \<Rightarrow> True | Some p \<Rightarrow> p))
            (map snd (assigned w n_proc (product_repeat (FR_basis (FR factory)) 9))) buf)"
proof (intro conjI impI)
  show "fst (hexagons_traced eng factory (w, n_proc) buf)
      = fst (get_reduced_hexagons eng factory (w, n_proc) buf)"
    and "fst (snd (hexagons_traced eng factory (w, n_proc) buf))
       = snd (get_reduced_hexagons eng factory (w, n_proc) buf)"
    by (simp_all add: hexagons_traced_def get_reduced_hexagons_def for_loop_traced_same)
  show "fst (pentagons_traced eng factory (w, n_proc) prune_arg buf)
       = fst (get_reduced_pentagons eng factory (w, n_proc) prune_arg buf)"
    and "fst (snd (pentagons_traced eng factory (w, n_proc) prune_arg buf))
       = snd (get_reduced_pentagons eng factory (w, n_proc) prune_arg buf)"
    by (simp_all add: pentagons_traced_def get_reduced_pentagons_def for_loop_traced_same)
next
  assume "fst (get_reduced_hexagons eng factory (w, n_proc) buf) = None"
  then have "fst (for_loop (hexagon_step eng factory w n_proc)
      (enumerate_ulong (product_repeat (FR_basis (FR factory)) 6)) buf) = None"
    by (simp add: get_reduced_hexagons_def)
  from for_loop_traced_all [OF this, of "[]"]
  show "snd (snd (hexagons_traced eng factory (w, n_proc) buf))
          = map (\<lambda>i. i mod 2 ^ 64) [0..<length (FR_basis (FR factory)) ^ 6]"
    by (simp add: hexagons_traced_def map_fst_enumerate_ulong length_product_repeat)
next
  assume ok: "fst (get_reduced_pentagons eng factory (w, n_proc) prune_arg buf) = None"
  then have g: "\<not> (2 ^ 31 \<le> w \<or> 2 ^ 31 \<le> n_proc)"
    by (auto simp: get_reduced_pentagons_def)
  then have "fst (for_loop
      (pentagon_step eng factory (case prune_arg of None \<Rightarrow> True | Some p \<Rightarrow> p) w n_proc)
      (enumerate_ulong (product_repeat (FR_basis (FR factory)) 9)) buf) = None"
    using ok by (simp add: get_reduced_pentagons_def)
  from for_loop_traced_all [OF this, of "[]"] g
  show "snd (snd (pentagons_traced eng factory (w, n_proc) prune_arg buf))
          = map (\<lambda>i. i mod 2 ^ 64) [0..<length (FR_basis (FR factory)) ^ 9]"
    by (simp add: pentagons_traced_def map_fst_enumerate_ulong length_product_repeat)
next
  assume "0 < n_proc \<and> length (FR_basis (FR factory)) ^ 6 \<le> 2 ^ 64"
  then show "get_reduced_hexagons eng factory (w, n_proc) buf =
          for_loop (hexagon_body eng factory)
            (map snd (assigned w n_proc (product_repeat (FR_basis (FR factory)) 6))) buf"
    by (intro hexagons_striped) simp_all
next
  assume "0 < n_proc \<and> w < 2 ^ 31 \<and> n_proc < 2 ^ 31
          \<and> length (FR_basis (FR factory)) ^ 9 \<le> 2 ^ 64"
  then show "get_reduced_pentagons eng factory (w, n_proc) prune_arg buf =
          for_loop (pentagon_body eng factory (case prune_arg of None \<Rightarrow> True | Some p \<Rightarrow> p))
            (map snd (assigned w n_proc (product_repeat (FR_basis (FR factory)) 9))) buf"
    by (intro pentagons_striped) simp_all
qed

theorem workers_enumerate_every_position_witness:
  "fst (get_reduced_hexagons plain_engine fib_factory (0, 2) ([] :: (nat list, rat, unit) result list)) = None
   \<and> snd (snd (hexagons_traced plain_engine fib_factory (0, 2) ([] :: (nat list, rat, unit) result list)))
       = map (\<lambda>i. i mod 2 ^ 64) [0..<2 ^ 6]
   \<and> get_reduced_hexagons plain_engine fib_factory (0, 2) ([] :: (nat list, rat, unit) result list)
       = for_loop (hexagon_body plain_engine fib_factory)
           (map snd (assigned 0 2 (product_repeat [0, 1] 6))) []
   \<and> fst (get_reduced_pentagons plain_engine trivial_factory (1, 2) None
            ([] :: (nat list, rat, unit) result list)) = None
   \<and> snd (snd (pentagons_traced plain_engine trivial_factory (1, 2) None
            ([] :: (nat list, rat, unit) result list))) = map (\<lambda>i. i mod 2 ^ 64) [0..<1 ^ 9]
   \<and> get_reduced_pentagons plain_engine trivial_factory (1, 2) None
            ([] :: (nat list, rat, unit) result list)
       = for_loop (pentagon_body plain_engine trivial_factory True)
           (map snd (assigned 1 2 (product_repeat [0] 9))) []"
proof -
  have h: "fst (get_reduced_hexagons plain_engine fib_factory (0, 2)
      ([] :: (nat list, rat, unit) result list)) = None"
    by (simp only: hexagons_fib fst_conv)
  have p: "fst (get_reduced_pentagons plain_engine trivial_factory (1, 2) None
      ([] :: (nat list, rat, unit) result list)) = None"
    by (simp only: pentagons_trivial fst_conv)
  have len: "length (FR_basis (FR fib_factory)) = 2" "length (FR_basis (FR trivial_factory)) = 1"
    by (simp_all add: fib_basis trivial_basis)
  have small6: "(0::nat) < 2 \<and> length (FR_basis (FR fib_factory)) ^ 6 \<le> 2 ^ 64"
    unfolding len by simp
  have small9: "(0::nat) < 2 \<and> (1::nat) < 2 ^ 31 \<and> (2::nat) < 2 ^ 31
      \<and> length (FR_basis (FR trivial_factory)) ^ 9 \<le> 2 ^ 64"
    unfolding len by simp
  note t1 = workers_enumerate_every_position [of plain_engine fib_factory 0 2
        "[] :: (nat list, rat, unit) result list" None]
  note t2 = workers_enumerate_every_position [of plain_engine trivial_factory 1 2
        "[] :: (nat list, rat, unit) result list" None]
  note c3 = t1 [THEN conjunct2, THEN conjunct2, THEN conjunct1, rule_format, OF h]
  note c7 = t1 [THEN conjunct2, THEN conjunct2, THEN conjunct2, THEN conjunct2, THEN conjunct2,
      THEN conjunct2, THEN conjunct1, rule_format, OF small6]
  note c6 = t2 [THEN conjunct2, THEN conjunct2, THEN conjunct2, THEN conjunct2, THEN conjunct2,
      THEN conjunct1, rule_format, OF p]
  note c8 = t2 [THEN conjunct2, THEN conjunct2, THEN conjunct2, THEN conjunct2, THEN conjunct2,
      THEN conjunct2, THEN conjunct2, rule_format, OF small9]
  show ?thesis
    using h p c3 c7 c6 c8
    by (simp only: len option.case) (simp only: fib_basis trivial_basis)
qed


text \<open>
  Worker \<open>0\<close> of \<open>2\<close> on the Fibonacci structure: its loop passes through all \<open>64\<close>
  positions, position \<open>1\<close> among them, which is not in its residue class; the
  positions it is assigned are the even ones.
\<close>

theorem worker_enumerates_other_positions:
  "snd (snd (hexagons_traced plain_engine fib_factory (0, 2) ([] :: (nat list, rat, unit) result list)))
     = [0..<64]
   \<and> 1 \<in> set (snd (snd (hexagons_traced plain_engine fib_factory (0, 2)
            ([] :: (nat list, rat, unit) result list))))
   \<and> (1::nat) mod 2 \<noteq> 0
   \<and> map fst (assigned 0 2 (product_repeat (FR_basis (FR fib_factory)) 6))
       = filter (\<lambda>i. i mod 2 = 0) [0..<64]"
proof -
  note a = hexagons_traced_fib
  have b: "map fst (assigned 0 2 (product_repeat (FR_basis (FR fib_factory)) 6))
       = filter (\<lambda>i. i mod 2 = 0) [0..<64]"
    by code_simp
  show ?thesis unfolding a using b by simp
qed

section \<open>Pruning of pentagon equations\<close>

text \<open>
  The tuple at a position of the enumeration, by the digits of the position; and the
  assignment of a worker when there are at least as many workers as positions.
\<close>

lemma nth_concat_uniform:
  "(\<And>ys. ys \<in> set xss \<Longrightarrow> length ys = m) \<Longrightarrow> i < m * length xss
    \<Longrightarrow> concat xss ! i = (xss ! (i div m)) ! (i mod m)"
proof (induction xss arbitrary: i)
  case Nil
  then show ?case by simp
next
  case (Cons ys xss)
  have len: "length ys = m" using Cons.prems(1) by simp
  show ?case
  proof (cases "i < m")
    case True
    then show ?thesis by (simp add: nth_append len)
  next
    case False
    then have m: "0 < m" using Cons.prems(2) by (cases m) auto
    have "i - m < m * length xss" using Cons.prems(2) False by simp
    then have "concat xss ! (i - m) = (xss ! ((i - m) div m)) ! ((i - m) mod m)"
      using Cons.IH Cons.prems(1) by simp
    then show ?thesis
      using False m by (simp add: nth_append len le_div_geq le_mod_geq)
  qed
qed

lemma nth_product_repeat:
  assumes "i < length xs ^ Suc k"
  shows "product_repeat xs (Suc k) ! i
    = xs ! (i div length xs ^ k) # product_repeat xs k ! (i mod length xs ^ k)"
proof -
  let ?m = "length xs ^ k"
  have lt: "i < ?m * length xs" using assms by (simp add: mult.commute)
  then have m: "0 < ?m" by (cases "?m") auto
  have d: "i div ?m < length xs" using lt m by (simp add: less_mult_imp_div_less mult.commute)
  have "product_repeat xs (Suc k) ! i
      = (map (\<lambda>x. map ((#) x) (product_repeat xs k)) xs ! (i div ?m)) ! (i mod ?m)"
    unfolding product_repeat.simps
    by (rule nth_concat_uniform) (use lt in \<open>auto simp: length_product_repeat\<close>)
  also have "\<dots> = xs ! (i div ?m) # product_repeat xs k ! (i mod ?m)"
    using d m by (simp add: length_product_repeat)
  finally show ?thesis .
qed

lemma filter_eq_upt: "filter (\<lambda>i. i = j) [0..<m] = (if j < m then [j] else [])"
  by (induction m) auto

lemma assigned_single:
  assumes "length tuples \<le> n" and "j < length tuples"
  shows "assigned j n tuples = [(j, tuples ! j)]"
proof -
  have "filter (\<lambda>i. i mod n = j) [0..<length tuples] = filter (\<lambda>i. i = j) [0..<length tuples]"
    by (rule filter_cong) (use assms in auto)
  then show ?thesis
    using assms by (simp add: assigned_eq filter_eq_upt)
qed

lemma nth_product_repeat2:
  "i < 2 ^ Suc k \<Longrightarrow> product_repeat [x, y] (Suc k) ! i
     = [x, y] ! (i div 2 ^ k) # product_repeat [x, y] k ! (i mod 2 ^ k)"
proof -
  have l: "length [x, y] = 2" by simp
  show "i < 2 ^ Suc k \<Longrightarrow> product_repeat [x, y] (Suc k) ! i
     = [x, y] ! (i div 2 ^ k) # product_repeat [x, y] k ! (i mod 2 ^ k)"
    using nth_product_repeat [of i "[x, y]" k] unfolding l .
qed

lemma nonuple_487: "product_repeat [0::nat, 1] 9 ! 487 = [1, 1, 1, 1, 0, 0, 1, 1, 1]"
proof -
  have s8: "product_repeat [0::nat, 1] 9 ! 487 = 1 # product_repeat [0, 1] 8 ! 231"
    using nth_product_repeat2 [of 487 8 "0::nat" "1::nat"] by simp
  have s7: "product_repeat [0::nat, 1] 8 ! 231 = 1 # product_repeat [0, 1] 7 ! 103"
    using nth_product_repeat2 [of 231 7 "0::nat" "1::nat"] by simp
  have s6: "product_repeat [0::nat, 1] 7 ! 103 = 1 # product_repeat [0, 1] 6 ! 39"
    using nth_product_repeat2 [of 103 6 "0::nat" "1::nat"] by simp
  have s5: "product_repeat [0::nat, 1] 6 ! 39 = 1 # product_repeat [0, 1] 5 ! 7"
    using nth_product_repeat2 [of 39 5 "0::nat" "1::nat"] by simp
  have s4: "product_repeat [0::nat, 1] 5 ! 7 = 0 # product_repeat [0, 1] 4 ! 7"
    using nth_product_repeat2 [of 7 4 "0::nat" "1::nat"] by simp
  have s3: "product_repeat [0::nat, 1] 4 ! 7 = 0 # product_repeat [0, 1] 3 ! 7"
    using nth_product_repeat2 [of 7 3 "0::nat" "1::nat"] by simp
  have s2: "product_repeat [0::nat, 1] 3 ! 7 = 1 # product_repeat [0, 1] 2 ! 3"
    using nth_product_repeat2 [of 7 2 "0::nat" "1::nat"] by simp
  have s: "product_repeat [0::nat, 1] 2 ! 3 = [1, 1]" by code_simp
  show ?thesis
    unfolding s8 s7 s6 s5 s4 s3 s2 s ..
qed

lemma len9: "length (product_repeat [0::nat, 1] 9) = 512"
proof -
  have l: "length [0::nat, 1] = 2" by simp
  show ?thesis unfolding length_product_repeat l by simp
qed

lemma pentagons_487:
  "get_reduced_pentagons plain_engine fib_factory (487, 512) prune_arg buf
    = for_loop (pentagon_body plain_engine fib_factory (case prune_arg of None \<Rightarrow> True | Some p \<Rightarrow> p))
        [[1, 1, 1, 1, 0, 0, 1, 1, 1]] buf"
proof -
  have a: "assigned 487 512 (product_repeat [0::nat, 1] 9) = [(487, [1, 1, 1, 1, 0, 0, 1, 1, 1])]"
    using assigned_single [of "product_repeat [0::nat, 1] 9" 512 487]
    by (simp only: len9 nonuple_487)
  have "get_reduced_pentagons plain_engine fib_factory (487, 512) prune_arg buf
    = for_loop (pentagon_body plain_engine fib_factory (case prune_arg of None \<Rightarrow> True | Some p \<Rightarrow> p))
        (map snd (assigned 487 512 (product_repeat (FR_basis (FR fib_factory)) 9))) buf"
  proof (rule pentagons_striped)
    have l: "length (FR_basis (FR fib_factory)) = 2"
      by (simp add: fib_basis)
    show "length (FR_basis (FR fib_factory)) ^ 9 \<le> 2 ^ 64"
      unfolding l by simp
  qed simp_all
  then show ?thesis
    by (simp only: fib_basis a list.map snd_conv)
qed

text \<open>
  C3, as the code has it. The pruning is an argument of both functions. The worker
  operation \<^verbatim>\<open>get_reduced_pentagons\<close> prunes when the argument is left out, and always
  hands its own value on to \<^verbatim>\<open>feq_cy\<close>, whose own default (no pruning) therefore never
  applies in a worker. With pruning on, a nonuple whose left-hand side is zero gives
  the zero polynomial, and the loop body leaves the buffer as it is.
\<close>

theorem pruning_by_default:
  "get_reduced_pentagons eng factory mp_params None buf
     = get_reduced_pentagons eng factory mp_params (Some True) buf
   \<and> feq_cy factory nonuple None = feq_cy factory nonuple (Some False)
   \<and> (fmat factory f c d e g l = Inr u \<and> fmat factory a b l e f k = Inr v \<and> u * v = 0 \<longrightarrow>
        feq_cy factory [a, b, c, d, e, f, g, k, l] (Some True) = Inr 0
      \<and> pentagon_body eng factory True [a, b, c, d, e, f, g, k, l] buf = Inr buf)"
  by (simp add: get_reduced_pentagons_def feq_cy_def pentagon_body_def)

theorem pruning_by_default_witness:
  "fmat fib_factory 0 1 1 0 1 1 = Inr 0 \<and> fmat fib_factory 1 1 1 0 0 1 = Inr 0
   \<and> feq_cy fib_factory [1, 1, 1, 1, 0, 0, 1, 1, 1] (Some True) = Inr 0
   \<and> feq_cy fib_factory [1, 1, 1, 1, 0, 0, 1, 1, 1] None = Inr (- 2)
   \<and> pentagon_body plain_engine fib_factory True [1, 1, 1, 1, 0, 0, 1, 1, 1]
        ([] :: (nat list, rat, unit) result list) = Inr []"
proof -
  have u: "fmat fib_factory 0 1 1 0 1 1 = Inr 0" by code_simp
  have v: "fmat fib_factory 1 1 1 0 0 1 = Inr 0" by code_simp
  have n: "feq_cy fib_factory [1, 1, 1, 1, 0, 0, 1, 1, 1] (Some False) = Inr (- 2)" by code_simp
  show ?thesis
    using u v n
      pruning_by_default [where eng = plain_engine and factory = fib_factory
        and buf = "[] :: (nat list, rat, unit) result list"
        and nonuple = "[1, 1, 1, 1, 0, 0, 1, 1, 1]"
        and a = 1 and b = 1 and c = 1 and d = 1 and e = 0 and f = 0 and g = 1 and k = 1 and l = 1
        and u = 0 and v = 0]
    by simp
qed

text \<open>
  On the Fibonacci structure, the worker with id \<open>487\<close> of \<open>512\<close> builds the equation
  of the nonuple at position \<open>487\<close> only. Its left-hand side is zero and its right-hand
  side is not: called without the argument \<^verbatim>\<open>prune\<close>, the operation records nothing;
  with \<^verbatim>\<open>prune=False\<close> it records the equation.
\<close>

theorem pentagons_prune_when_left_out:
  "get_reduced_pentagons plain_engine fib_factory (487, 512) None
      ([] :: (nat list, rat, unit) result list) = (None, [])
   \<and> get_reduced_pentagons plain_engine fib_factory (487, 512) (Some False)
      ([] :: (nat list, rat, unit) result list) = (None, [Poly [([], - 2)]])"
proof -
  have a: "for_loop (pentagon_body plain_engine fib_factory True) [[1, 1, 1, 1, 0, 0, 1, 1, 1]]
      ([] :: (nat list, rat, unit) result list) = (None, [])"
    by code_simp
  have b: "for_loop (pentagon_body plain_engine fib_factory False) [[1, 1, 1, 1, 0, 0, 1, 1, 1]]
      ([] :: (nat list, rat, unit) result list) = (None, [Poly [([], - 2)]])"
    by code_simp
  show ?thesis using a b by (simp add: pentagons_487)
qed

section \<open>Update and reduce\<close>

text \<open>
  C5. \<^verbatim>\<open>update_reduce\<close> appends one equation to the buffer. It first substitutes with
  \<^verbatim>\<open>subs(eq_tup, factory._kp)\<close>; the test \<^verbatim>\<open>tup_fixes_sq\<close> is made on the substituted
  equation, before any reduction. When the test holds, the equation recorded is
  \<^verbatim>\<open>to_monic\<close> of the substituted equation, and neither the generic reduction nor
  \<^verbatim>\<open>_nnz\<close> and \<^verbatim>\<open>_ks\<close> have any part in it; only when it fails, the equation recorded is
  \<^verbatim>\<open>reduce_poly_dict\<close> of the substituted equation with \<^verbatim>\<open>_nnz\<close> and \<^verbatim>\<open>_ks\<close>, and
  \<^verbatim>\<open>to_monic\<close> has no part in it. What the four external functions compute is theirs
  to say.
\<close>

theorem update_reduce_order:
  "update_reduce eng factory eq_tup worker_results =
     worker_results @
       [Poly (if tup_fixes_sq eng (subs eng eq_tup (kp factory))
              then to_monic eng (subs eng eq_tup (kp factory))
              else reduce_poly_dict eng (subs eng eq_tup (kp factory)) (nnz factory) (ks factory))]
   \<and> (tup_fixes_sq eng (subs eng eq_tup (kp factory)) \<longrightarrow>
        update_reduce (eng\<lparr>reduce_poly_dict := r\<rparr>) (factory\<lparr>nnz := z, ks := k\<rparr>) eq_tup worker_results
          = worker_results @ [Poly (to_monic eng (subs eng eq_tup (kp factory)))])
   \<and> (\<not> tup_fixes_sq eng (subs eng eq_tup (kp factory)) \<longrightarrow>
        update_reduce (eng\<lparr>to_monic := m\<rparr>) factory eq_tup worker_results
          = worker_results @
              [Poly (reduce_poly_dict eng (subs eng eq_tup (kp factory)) (nnz factory) (ks factory))])"
  by (simp add: update_reduce_def Let_def)

theorem update_reduce_order_witness:
  "tup_fixes_sq plain_engine (subs plain_engine [([2], 3), ([], - 12)] (kp fib_factory))
   \<and> update_reduce (plain_engine\<lparr>reduce_poly_dict := (\<lambda>_ _ _. [])\<rparr>) fib_factory
        [([2], 3), ([], - 12)] ([] :: (nat list, rat, unit) result list)
       = [Poly [([2], 1), ([], - 4)]]
   \<and> \<not> tup_fixes_sq plain_engine (subs plain_engine [([1], 3), ([], - 12)] (kp fib_factory))
   \<and> update_reduce (plain_engine\<lparr>to_monic := (\<lambda>_. [])\<rparr>) fib_factory
        [([1], 3), ([], - 12)] ([] :: (nat list, rat, unit) result list)
       = [Poly [([1], 3), ([], - 12)]]"
proof -
  have a: "tup_fixes_sq plain_engine (subs plain_engine [([2], 3), ([], - 12)] (kp fib_factory))"
    by (simp add: plain_engine_def)
  have b: "\<not> tup_fixes_sq plain_engine (subs plain_engine [([1], 3), ([], - 12)] (kp fib_factory))"
    by (simp add: plain_engine_def)
  have c: "to_monic plain_engine (subs plain_engine [([2], 3), ([], - 12)] (kp fib_factory))
      = [([2], 1), ([], - 4)]"
    by (simp add: plain_engine_def)
  have d: "reduce_poly_dict plain_engine (subs plain_engine [([1], 3), ([], - 12)] (kp fib_factory))
      (nnz fib_factory) (ks fib_factory) = [([1], 3), ([], - 12)]"
    by (simp add: plain_engine_def)
  have e: "fib_factory\<lparr>nnz := (), ks := ()\<rparr> = fib_factory"
    by simp
  show ?thesis
    using a b
      update_reduce_order [where eng = plain_engine and factory = fib_factory
        and eq_tup = "[([2], 3), ([], - 12)]" and worker_results = "[] :: (nat list, rat, unit) result list"
        and r = "\<lambda>_ _ _. []" and z = "()" and k = "()"]
      update_reduce_order [where eng = plain_engine and factory = fib_factory
        and eq_tup = "[([1], 3), ([], - 12)]" and worker_results = "[] :: (nat list, rat, unit) result list"
        and m = "\<lambda>_. []"]
    unfolding c d e by simp
qed

section \<open>State broadcast\<close>

text \<open>
  C7. \<^verbatim>\<open>update_child_fmats\<close> sets \<^verbatim>\<open>_fvars\<close>, \<^verbatim>\<open>solved\<close>, \<^verbatim>\<open>_ks\<close> and \<^verbatim>\<open>_var_degs\<close> to
  the four values supplied, then sets \<^verbatim>\<open>_nnz\<close> to \<^verbatim>\<open>get_known_nonz()\<close> of the structure
  with the four new fields, then \<^verbatim>\<open>_kp\<close> to \<^verbatim>\<open>compute_known_powers\<close> of the new
  \<^verbatim>\<open>_var_degs\<close> and of \<^verbatim>\<open>get_known_vals()\<close> of the structure that has the new \<^verbatim>\<open>_nnz\<close> as
  well. The fusion ring and every other part of the structure stay as they were: the
  result is the old structure with these six fields replaced.
\<close>

theorem update_child_fmats_frame:
  "fvars (update_child_fmats cls eng factory (new_fvars, new_solved, new_ks, new_var_degs)) = new_fvars
   \<and> solved (update_child_fmats cls eng factory (new_fvars, new_solved, new_ks, new_var_degs)) = new_solved
   \<and> ks (update_child_fmats cls eng factory (new_fvars, new_solved, new_ks, new_var_degs)) = new_ks
   \<and> var_degs (update_child_fmats cls eng factory (new_fvars, new_solved, new_ks, new_var_degs))
       = new_var_degs
   \<and> nnz (update_child_fmats cls eng factory (new_fvars, new_solved, new_ks, new_var_degs))
       = get_known_nonz cls
           (factory\<lparr>fvars := new_fvars, solved := new_solved, ks := new_ks, var_degs := new_var_degs\<rparr>)
   \<and> kp (update_child_fmats cls eng factory (new_fvars, new_solved, new_ks, new_var_degs))
       = compute_known_powers eng new_var_degs
           (get_known_vals cls
             (factory\<lparr>fvars := new_fvars, solved := new_solved, ks := new_ks, var_degs := new_var_degs,
                nnz := get_known_nonz cls
                  (factory\<lparr>fvars := new_fvars, solved := new_solved,
                     ks := new_ks, var_degs := new_var_degs\<rparr>)\<rparr>))
   \<and> FR (update_child_fmats cls eng factory (new_fvars, new_solved, new_ks, new_var_degs)) = FR factory
   \<and> factory.more (update_child_fmats cls eng factory (new_fvars, new_solved, new_ks, new_var_degs))
       = factory.more factory
   \<and> update_child_fmats cls eng factory (new_fvars, new_solved, new_ks, new_var_degs)
       = factory\<lparr>fvars := new_fvars, solved := new_solved, ks := new_ks, var_degs := new_var_degs,
           nnz := nnz (update_child_fmats cls eng factory (new_fvars, new_solved, new_ks, new_var_degs)),
           kp := kp (update_child_fmats cls eng factory (new_fvars, new_solved, new_ks, new_var_degs))\<rparr>"
  by (simp add: update_child_fmats_def Let_def)

section \<open>Dispatch\<close>

lemma heap_fib:
  "heap fib_process 1000 = Some (Structure fib_factory)"
  "heap fib_process 2000 = Some Other_object"
  by (simp_all add: fib_process_def)

lemma attrs:
  "module_attrs ''no_such_operation'' = None"
  "module_attrs ''get_reduced_hexagons'' = Some (hexagons_attr plain_engine)"
  "module_attrs ''collect_eqns'' = Some Function1"
  "module_attrs ''worker_results'' = Some Plain_value"
  by (simp_all add: module_attrs_def)

text \<open>
  C8, as the code has it. The executor makes no check of its own. For a handle whose
  address holds an object, it raises \<^verbatim>\<open>AttributeError\<close> when the module has no attribute
  of the given name and \<^verbatim>\<open>TypeError\<close> when the attribute cannot be called with two
  arguments; otherwise it calls the attribute with the object and the payload, and
  its result (value or exception), the object and the buffer are those the call
  leaves. Whether the object is the structure is not looked at.
\<close>

theorem executor_dispatch:
  "heap p fmats_id = Some obj \<longrightarrow>
     (mod_attrs fn_name = None \<longrightarrow>
        executor mod_attrs ((fn_name, fmats_id), args) p = (Inl AttributeError, p))
   \<and> (\<forall>f. mod_attrs fn_name = Some (Function2 f) \<longrightarrow>
        executor mod_attrs ((fn_name, fmats_id), args) p =
          (case f obj args (results p) of
             (res, obj', buf') \<Rightarrow> (res, p\<lparr>heap := (heap p)(fmats_id \<mapsto> obj'), results := buf'\<rparr>)))
   \<and> (mod_attrs fn_name = Some Function1 \<or> mod_attrs fn_name = Some Plain_value \<longrightarrow>
        executor mod_attrs ((fn_name, fmats_id), args) p = (Inl TypeError, p))"
  by (auto simp: executor_def)

theorem executor_dispatch_witness:
  "executor module_attrs ((''no_such_operation'', 1000), (0, 2)) fib_process
     = (Inl AttributeError, fib_process)
   \<and> executor module_attrs ((''get_reduced_hexagons'', 1000), (0, 2)) fib_process
     = (Inr (), fib_process\<lparr>results := [Poly [([], - 1)], Poly [([], - 1)]]\<rparr>)
   \<and> executor module_attrs ((''worker_results'', 1000), (0, 2)) fib_process
     = (Inl TypeError, fib_process)"
proof -
  have r: "results fib_process = []"
    by (simp add: fib_process_def)
  have same: "(heap fib_process)(1000 \<mapsto> Structure fib_factory) = heap fib_process"
    using heap_fib(1) by (rule fun_upd_idem)
  have call: "hexagons_attr plain_engine = Function2 f \<Longrightarrow>
      f (Structure fib_factory) (0, 2) ([] :: (nat list, rat, unit) result list) =
        (Inr (), Structure fib_factory, [Poly [([], - 1)], Poly [([], - 1)]])" for f
    by (auto simp: hexagons_attr_def hexagons_fib)
  obtain f :: "(nat, int, unit, unit, unit, unit, unit) factory py_object \<Rightarrow> nat \<times> nat
      \<Rightarrow> (nat list, rat, unit) result list
      \<Rightarrow> (error + unit) \<times> (nat, int, unit, unit, unit, unit, unit) factory py_object
          \<times> (nat list, rat, unit) result list"
    where f: "hexagons_attr plain_engine = Function2 f"
    by (simp add: hexagons_attr_def)
  show ?thesis
    using executor_dispatch [of fib_process 1000 "Structure fib_factory" module_attrs
        "''no_such_operation''" "(0, 2)"]
      executor_dispatch [of fib_process 1000 "Structure fib_factory" module_attrs
        "''get_reduced_hexagons''" "(0, 2)"]
      executor_dispatch [of fib_process 1000 "Structure fib_factory" module_attrs
        "''worker_results''" "(0, 2)"]
      call [OF f]
    by (simp add: heap_fib attrs f r same)
qed

text \<open>
  A handle whose address holds an object other than the structure: the operation is
  called on it and fails by itself, with the same \<^verbatim>\<open>AttributeError\<close> that an unknown
  name gives for a good handle. The name of a module attribute that is not an
  operation, \<^verbatim>\<open>collect_eqns\<close>: the failure is the \<^verbatim>\<open>TypeError\<close> of the call.
\<close>

theorem executor_has_no_handle_check:
  "fst (executor module_attrs ((''get_reduced_hexagons'', 2000), (0, 2)) fib_process)
     = Inl AttributeError
   \<and> fst (executor module_attrs ((''no_such_operation'', 1000), (0, 2)) fib_process)
     = Inl AttributeError
   \<and> fst (executor module_attrs ((''collect_eqns'', 1000), (0, 2)) fib_process) = Inl TypeError"
  by (simp add: executor_def heap_fib attrs hexagons_attr_def)

section \<open>The verification pass\<close>














end
